theory Spec2Isabelle
  imports Complex_Main
begin

section \<open>Response options of \<open>gnome/weatherers/roc.py\<close>\<close>

text \<open>
  The module is Python 2 with \<open>from __future__ import division\<close>: \<open>/\<close> is true
  division. Numbers are modelled as \<open>real\<close>: the finite arithmetic of the floats is
  idealised, and the places where the source divides are written out, since HOL's
  \<open>x / 0 = 0\<close> is not what the program does. A Python exception is a value of
  \<open>error\<close>. \<open>NonFinite\<close> is not an exception: it marks a numpy division by zero or the
  mean of an empty array, where numpy warns and goes on with \<open>inf\<close> or \<open>nan\<close>; the
  real-valued model stops following the source there.
\<close>

datatype error =
    NameError string
  | AttributeError string
  | UnboundLocalError string
  | KeyError string
  | TypeError
  | ZeroDivisionError
  | NonFinite

subsection \<open>\<open>Response._is_active\<close>\<close>

text \<open>
  A datetime is a number of seconds, a timeseries a list of \<open>(start, stop)\<close> rows.
  \<open>datetime.timedelta(seconds=x)\<close> holds whole microseconds: it rounds
  \<open>x * 10^6\<close> to the nearest integer. The module is Python 2, whose \<open>timedelta\<close>
  rounds with the C function \<open>round_to_long\<close>, a half going away from zero
  (Python 3 sends a half to the even neighbour; the two differ only for an \<open>x\<close>
  exactly half-way between two microseconds). The loop returns at the first row
  that matches.
\<close>

definition round_to_long :: "real \<Rightarrow> int" where
  "round_to_long x = (if x \<ge> 0 then \<lfloor>x + 0.5\<rfloor> else \<lceil>x - 0.5\<rceil>)"

definition timedelta :: "real \<Rightarrow> real" where
  "timedelta seconds = of_int (round_to_long (seconds * 1000000)) / 1000000"

fun is_active :: "(real \<times> real) list \<Rightarrow> real \<Rightarrow> real \<Rightarrow> bool" where
  "is_active [] model_time time_step = False"
| "is_active (t # ts) model_time time_step =
     (if model_time \<ge> fst t \<and> model_time + timedelta (time_step / 2) \<le> snd t then True
      else is_active ts model_time time_step)"

subsection \<open>\<open>Platform\<close>\<close>

datatype pstate =
    cascade | refuel_st | reload_st | taxi_takeoff | en_route | at_site
  | disperse_st | return_st | landing_taxi

text \<open>The two \<open>_all_states\<close> dictionaries of \<open>Platform.__init__\<close>, as written there.\<close>

definition aircraft_states :: "(pstate \<times> pstate) list" where
  "aircraft_states =
     [(cascade, refuel_st), (refuel_st, reload_st), (reload_st, taxi_takeoff),
      (taxi_takeoff, en_route), (en_route, at_site), (at_site, disperse_st),
      (disperse_st, return_st), (return_st, landing_taxi), (landing_taxi, refuel_st)]"

definition vessel_states :: "(pstate \<times> pstate) list" where
  "vessel_states =
     [(cascade, refuel_st), (refuel_st, reload_st), (reload_st, en_route),
      (en_route, at_site), (at_site, disperse_st), (disperse_st, return_st),
      (return_st, refuel_st)]"

record platform =
  ptype :: string
  state :: pstate
  ttns :: real
  has_payload :: bool
  disp_remaining :: real
  refuel :: real
  reload :: real
  taxi_time_takeoff :: real
  taxi_time_landing :: real
  taxi_land_depart :: real
  fuel_load :: real
  transit_speed :: real
  max_op_time :: real
  payload :: real
  max_pump_rate :: real
  max_range_with_payload :: real
  max_range_no_payload :: real
  cascade_transit_speed_with_payload :: real
  cascade_transit_speed_without_payload :: real
  application_speed :: real
  swath_width :: real

definition all_states :: "platform \<Rightarrow> (pstate \<times> pstate) list" where
  "all_states p = (if ptype p = ''aircraft'' then aircraft_states else vessel_states)"

text \<open>\<open>self._all_states[self.state]\<close>: a state that is no key of the dictionary raises.\<close>

definition get_next_state :: "platform \<Rightarrow> error + pstate" where
  "get_next_state p =
     (case map_of (all_states p) (state p) of
        None \<Rightarrow> Inl (KeyError ''state'')
      | Some s \<Rightarrow> Inr s)"

definition goto_next_state :: "platform \<Rightarrow> error + platform" where
  "goto_next_state p =
     (case map_of (all_states p) (state p) of
        None \<Rightarrow> Inl (KeyError ''state'')
      | Some s \<Rightarrow> Inr (p\<lparr>state := s\<rparr>))"


text \<open>Division of two Python numbers: a zero divisor raises.\<close>

definition py_div :: "real \<Rightarrow> real \<Rightarrow> error + real" where
  "py_div a b = (if b = 0 then Inl ZeroDivisionError else Inr (a / b))"

text \<open>\<open>int(x)\<close> truncates towards zero; \<open>x % m\<close> takes the sign of \<open>m\<close>.\<close>

definition py_int :: "real \<Rightarrow> real" where
  "py_int x = (if 0 \<le> x then of_int \<lfloor>x\<rfloor> else of_int \<lceil>x\<rceil>)"

definition py_mod :: "real \<Rightarrow> real \<Rightarrow> real" where
  "py_mod x m = x - m * of_int \<lfloor>x / m\<rfloor>"

definition cascade_time :: "platform \<Rightarrow> real \<Rightarrow> bool \<Rightarrow> error + real" where
  "cascade_time p dst pl =
     (let max_range = (if pl then max_range_with_payload p else max_range_no_payload p);
          speed = (if pl then cascade_transit_speed_with_payload p
                   else cascade_transit_speed_without_payload p)
      in if dst > max_range then
           (case py_div dst max_range of Inl e \<Rightarrow> Inl e
            | Inr num_legs0 \<Rightarrow>
               (let frac_leg = py_mod (num_legs0 * 1000) 1000;
                    num_legs = py_int num_legs0;
                    inter_stop = (taxi_land_depart p * 2 + fuel_load p) / 60
                in case py_div max_range speed of Inl e \<Rightarrow> Inl e
                   | Inr leg \<Rightarrow>
                       Inr (0 + taxi_land_depart p / 60 + num_legs * max_range
                            + num_legs * inter_stop + frac_leg * leg
                            + taxi_land_depart p / 60)))
         else
           (case py_div dst speed of Inl e \<Rightarrow> Inl e
            | Inr t \<Rightarrow> Inr (0 + taxi_land_depart p / 60 * 2 + t)))"

definition transit_time :: "platform \<Rightarrow> real \<Rightarrow> error + real" where
  "transit_time p dst = py_div dst (transit_speed p)"

text \<open>The two branches under \<open>rv < 0\<close> only log a warning; the comparison divides.\<close>

definition max_onsite_time :: "platform \<Rightarrow> real \<Rightarrow> error + real" where
  "max_onsite_time p dst =
     (case py_div (2 * dst) (transit_speed p) of Inl e \<Rightarrow> Inl e
      | Inr t \<Rightarrow>
         (let rv = max_op_time p - t
          in if rv < 0 then
               (case py_div (payload p) (max_pump_rate p) of Inl e \<Rightarrow> Inl e
                | Inr _ \<Rightarrow> Inr rv)
             else Inr rv))"

text \<open>
  \<open>get_state_time\<close> builds the dictionary of the nine durations, evaluating every
  entry, and ends without a \<open>return\<close> statement: the caller gets \<open>None\<close>.
\<close>

definition get_state_time :: "platform \<Rightarrow> real \<Rightarrow> bool \<Rightarrow> error + real option" where
  "get_state_time p dst pl =
     (case cascade_time p dst pl of Inl e \<Rightarrow> Inl e
      | Inr _ \<Rightarrow>
         (case transit_time p dst of Inl e \<Rightarrow> Inl e
          | Inr _ \<Rightarrow>
             (case max_onsite_time p dst of Inl e \<Rightarrow> Inl e
              | Inr _ \<Rightarrow>
                 (case transit_time p dst of Inl e \<Rightarrow> Inl e
                  | Inr _ \<Rightarrow> Inr None))))"

subsection \<open>\<open>Disperse.prepare_for_model_step\<close>\<close>

record disperse =
  platform :: platform
  transit :: real
  dosage :: real

text \<open>
  \<open>extra_time\<close> and \<open>achieved_pump_rate\<close> are local variables that nothing reads; the
  new \<open>_ttns\<close> is the literal \<open>5\<close> in both branches.
\<close>

definition disperse_prepare_for_model_step :: "disperse \<Rightarrow> real \<Rightarrow> error + disperse" where
  "disperse_prepare_for_model_step d time_step =
     (let p = (platform d)\<lparr>ttns := ttns (platform d) - time_step\<rparr>
      in if ttns p < 0 then
           (let extra_time = \<bar>ttns p\<bar>
            in case goto_next_state p of Inl e \<Rightarrow> Inl e
               | Inr p' \<Rightarrow>
                  (case get_state_time p' (transit d) (has_payload p') of Inl e \<Rightarrow> Inl e
                   | Inr st \<Rightarrow>
                      (let achieved_pump_rate =
                             (if st = None
                              then dosage d * application_speed p' * swath_width p'
                              else 0)
                       in Inr (d\<lparr>platform := p'\<lparr>ttns := 5\<rparr>\<rparr>))))
         else if ttns p = 0 then
           (case goto_next_state p of Inl e \<Rightarrow> Inl e
            | Inr p' \<Rightarrow> Inr (d\<lparr>platform := p'\<lparr>ttns := 5\<rparr>\<rparr>))
         else Inr (d\<lparr>platform := p\<rparr>))"

subsection \<open>The spill container\<close>

text \<open>
  The spill container \<open>sc\<close> is an external object. Its data arrays are kept per
  substance, as \<open>itersubstancedata\<close> hands them out; \<open>sc['mass']\<close> and the other
  container-wide arrays are the rows of all substances together (only their sum,
  mean and \<open>any\<close> are read). \<open>density\<close> is \<open>density_at_temp()\<close> of the substance
  \<open>_get_substance\<close> returns. A value of \<open>mass_balance\<close> is a number, or the
  dictionary \<open>Skim.prepare_for_model_run\<close> stores under its own id.
\<close>

record batch =
  mass :: "real list"
  mass_components :: "real list list"
  area :: "real list"
  frac_water :: "real list"

datatype entry = Scalar real | Structured "(string \<times> real) list"

record spill_container =
  batches :: "batch list"
  density :: real
  mass_balance :: "string \<rightharpoonup> entry"

definition sc_mass :: "spill_container \<Rightarrow> real list" where
  "sc_mass sc = concat (map mass (batches sc))"

definition sc_area :: "spill_container \<Rightarrow> real list" where
  "sc_area sc = concat (map area (batches sc))"

definition sc_frac_water :: "spill_container \<Rightarrow> real list" where
  "sc_frac_water sc = concat (map frac_water (batches sc))"

text \<open>\<open>len(sc)\<close>: the number of elements in the container.\<close>

definition len_sc :: "spill_container \<Rightarrow> nat" where
  "len_sc sc = length (sc_mass sc)"

text \<open>Sequencing of steps that may raise.\<close>

definition and_then :: "error + 'a \<Rightarrow> ('a \<Rightarrow> error + 'b) \<Rightarrow> error + 'b" where
  "and_then r f = (case r of Inl e \<Rightarrow> Inl e | Inr x \<Rightarrow> f x)"

text \<open>
  Division with a numpy operand, and \<open>ndarray.mean()\<close>. Where numpy gives
  \<open>inf\<close> or \<open>nan\<close> the source goes on computing with it; the model has
  \<open>NonFinite\<close> there and says nothing about what follows. The statements below
  evaluate steps on arrays with elements and with divisors other than 0, or name
  \<open>NonFinite\<close> as the outcome.
\<close>

definition np_div :: "real \<Rightarrow> real \<Rightarrow> error + real" where
  "np_div a b = (if b = 0 then Inl NonFinite else Inr (a / b))"

definition np_mean :: "real list \<Rightarrow> error + real" where
  "np_mean xs = (if xs = [] then Inl NonFinite else Inr (sum_list xs / real (length xs)))"

text \<open>
  \<open>uc.convert('Length', 'meters', 'inches', x)\<close> belongs to the external
  unit-conversion package: an inch is 0.0254 m.
\<close>

definition meters_to_inches :: "real \<Rightarrow> real" where
  "meters_to_inches x = x / 0.0254"

subsection \<open>\<open>Response._get_thickness\<close> and \<open>Response._remove_mass_simple\<close>\<close>

text \<open>\<open>sc['area'].any() > 0\<close> compares a boolean with 0: some area is not zero.\<close>

definition get_thickness :: "spill_container \<Rightarrow> error + real" where
  "get_thickness sc =
     (if list_ex (\<lambda>a. a \<noteq> 0) (sc_area sc) then
        and_then (np_mean (sc_mass sc)) (\<lambda>m.
        and_then (np_div m (density sc)) (\<lambda>v.
        and_then (np_mean (sc_frac_water sc)) (\<lambda>fw.
        and_then (np_div v (1.0 - fw)) (\<lambda>volume_emul.
        and_then (np_mean (sc_area sc)) (\<lambda>a.
        and_then (np_div volume_emul a) (\<lambda>oil_thickness.
        Inr (meters_to_inches oil_thickness)))))))
      else Inr (meters_to_inches 0.0))"

text \<open>
  \<open>min(amount / total_mass, 1.0)\<close>. There is no test of \<open>total_mass\<close>: with a zero
  \<open>total_mass\<close> numpy's quotient is \<open>inf\<close> for a positive \<open>amount\<close>, and
  \<open>min(inf, 1.0)\<close> is \<open>1.0\<close>; for any other \<open>amount\<close> it is \<open>nan\<close> or \<open>-inf\<close>, and
  so is the minimum.
\<close>

definition rm_mass_frac :: "real \<Rightarrow> real \<Rightarrow> error + real" where
  "rm_mass_frac amount total_mass =
     (if total_mass \<noteq> 0 then Inr (min (amount / total_mass) 1.0)
      else if amount > 0 then Inr 1.0
      else Inl NonFinite)"

definition remove_mass_simple :: "batch \<Rightarrow> real \<Rightarrow> error + batch" where
  "remove_mass_simple data amount =
     (let total_mass = sum_list (mass data)
      in and_then (rm_mass_frac amount total_mass) (\<lambda>f.
           (let mc = map (map (\<lambda>x. (1 - f) * x)) (mass_components data)
            in Inr (data\<lparr>mass_components := mc, mass := map sum_list mc\<rparr>))))"

subsection \<open>\<open>Burn\<close>\<close>

text \<open>
  The attributes of a \<open>Burn\<close> object, without the leading underscore. \<open>burn_time\<close>
  is \<open>None\<close> until \<open>_collect\<close> computes it. \<open>__init__\<close> assigns \<open>_is_boom_filled\<close>;
  the methods read and write \<open>_is_boom_full\<close>, which does not exist until its first
  assignment (\<open>None\<close> here). \<open>collected\<close> is what the lookup of \<open>self.collected\<close>
  finds: no class of the module assigns or defines that name, so the lookup fails
  (\<open>None\<close>) unless a base class outside the module provides it. \<open>ident\<close> is
  \<open>self.id\<close>, \<open>timeseries\<close> is a list of rows.
\<close>

record burn =
  ident :: string
  on :: bool
  active :: bool
  timeseries :: "(real \<times> real) list"
  offset :: real
  boom_length :: real
  boom_draft :: real
  speed :: real
  throughput :: real
  swath_width_b :: real
  area_b :: real
  boom_capacity :: real
  boom_capacity_remaining :: real
  offset_time :: real
  area_coverage_rate :: real
  is_collecting :: bool
  is_burning :: bool
  is_boom_filled :: bool
  is_boom_full :: "bool option"
  is_transiting :: bool
  is_cleaning :: bool
  time_collecting_in_sim :: real
  ts_burned :: real
  ts_collected :: real
  collected :: "real option"
  burn_time :: "real option"
  burn_rate :: real
  burn_time_remaining :: real
  offset_time_remaining :: real
  cleaning_time_remaining :: real
  time_remaining :: real
  report :: "string list"

definition burn_prepare_for_model_run ::
  "burn \<Rightarrow> spill_container \<Rightarrow> error + burn \<times> spill_container" where
  "burn_prepare_for_model_run s sc =
     (let s1 = s\<lparr>report := []\<rparr>;
          s2 = s1\<lparr>swath_width_b := 0.3 * boom_length s1\<rparr>;
          s3 = s2\<lparr>area_b := swath_width_b s2 * (0.4125 * boom_length s2 / 3) * 2 / 3\<rparr>;
          s4 = s3\<lparr>boom_capacity := boom_draft s3 / 36 * area_b s3\<rparr>;
          s5 = s4\<lparr>boom_capacity_remaining := boom_capacity s4\<rparr>
      in and_then (py_div (offset s5 * 0.00987) (speed s5)) (\<lambda>q.
           (let s6 = s5\<lparr>offset_time := q * 60\<rparr>;
                s7 = s6\<lparr>area_coverage_rate := swath_width_b s6 * speed s6 / 430\<rparr>;
                s8 = (if swath_width_b s7 > 1000
                      then s7\<lparr>report := report s7 @
                             [''Swaths > 1000 feet may not be achievable in the field'']\<rparr>
                      else s7);
                s9 = (if speed s8 > 1.2
                      then s8\<lparr>report := report s8 @
                             [''Excessive entrainment of oil likely to occur at speeds greater than 1.2 knots.'']\<rparr>
                      else s8);
                sc' = (if on s9
                       then sc\<lparr>mass_balance := (mass_balance sc)
                               (''burned'' \<mapsto> Scalar 0.0, ident s9 \<mapsto> Scalar 0.0,
                                ''boomed'' \<mapsto> Scalar 0.0)\<rparr>
                       else sc)
            in Inr (s9\<lparr>is_collecting := True\<rparr>, sc'))))"

definition burn_collect :: "burn \<Rightarrow> spill_container \<Rightarrow> error + burn" where
  "burn_collect s sc =
     and_then
       (case burn_time s of
          None \<Rightarrow>
            and_then (np_mean (sc_frac_water sc)) (\<lambda>fw.
              (let br = 0.14 * (100 - (fw * 100)) / 100
               in and_then (np_div (0.33 * boom_draft s) br) (\<lambda>q.
                    Inr (s\<lparr>burn_rate := br, burn_time := Some (q * 60),
                           burn_time_remaining := q * 60\<rparr>))))
        | Some _ \<Rightarrow> Inr s) (\<lambda>s1.
     and_then (get_thickness sc) (\<lambda>oil_thickness.
       (let encounter_rate = 63.13 * swath_width_b s1 * oil_thickness * speed s1;
            emulsion_rr = encounter_rate * throughput s1
        in and_then
             (if oil_thickness > 0
              then np_div ((boom_capacity_remaining s1 * 0.17811) * 42) emulsion_rr
              else Inr 0.0) (\<lambda>time_to_fill.
           if time_to_fill > time_remaining s1 then
             (let s2 = s1\<lparr>ts_collected := emulsion_rr * (time_remaining s1 / 60)\<rparr>
              in case collected s2 of
                   None \<Rightarrow> Inl (AttributeError ''collected'')
                 | Some c \<Rightarrow>
                     (let s3 = s2\<lparr>boom_capacity_remaining := boom_capacity_remaining s2 - c\<rparr>;
                          s4 = s3\<lparr>time_remaining := 0.0\<rparr>
                      in Inr (s4\<lparr>time_collecting_in_sim :=
                                  time_collecting_in_sim s4 + time_remaining s4\<rparr>)))
           else if time_remaining s1 > 0 then
             Inr (s1\<lparr>ts_collected := boom_capacity_remaining s1,
                     boom_capacity_remaining := 0.0,
                     is_boom_full := Some True,
                     time_remaining := time_remaining s1 - time_to_fill,
                     time_collecting_in_sim := time_collecting_in_sim s1 + time_to_fill,
                     offset_time_remaining := offset_time s1,
                     is_collecting := False,
                     is_transiting := True\<rparr>)
           else Inr s1))))"

definition burn_transit :: "burn \<Rightarrow> error + burn" where
  "burn_transit s =
     (if time_remaining s > offset_time_remaining s then
        (let s1 = s\<lparr>time_remaining := time_remaining s - offset_time_remaining s,
                      offset_time_remaining := 0.0,
                      is_transiting := False\<rparr>
         in case is_boom_full s1 of
              None \<Rightarrow> Inl (AttributeError ''_is_boom_full'')
            | Some full \<Rightarrow>
                Inr (if full then s1\<lparr>is_burning := True\<rparr> else s1\<lparr>is_collecting := True\<rparr>))
      else if time_remaining s > 0 then
        Inr (s\<lparr>offset_time_remaining := offset_time_remaining s - time_remaining s,
               time_remaining := 0.0\<rparr>)
      else Inr s)"

text \<open>
  In the second branch \<open>_burn_time\<close> divides: \<open>None\<close> is a \<open>TypeError\<close>, and the
  value comes from a numpy mean.
\<close>

definition burn_burn :: "burn \<Rightarrow> error + burn" where
  "burn_burn s =
     (let s1 = s\<lparr>is_boom_full := Some False\<rparr>
      in if time_remaining s1 > burn_time_remaining s1 then
           Inr (s1\<lparr>time_remaining := time_remaining s1 - burn_time_remaining s1,
                   burn_time_remaining := 0.0,
                   ts_burned := boom_capacity s1 - boom_capacity_remaining s1,
                   is_burning := False,
                   is_cleaning := True,
                   cleaning_time_remaining := 3600\<rparr>)
         else if time_remaining s1 > 0 then
           (case burn_time s1 of
              None \<Rightarrow> Inl TypeError
            | Some bt \<Rightarrow>
                and_then (np_div (time_remaining s1) bt) (\<lambda>frac_burned.
                  (let burned = boom_capacity s1 * frac_burned
                   in Inr (s1\<lparr>boom_capacity_remaining := boom_capacity_remaining s1 + burned,
                              ts_burned := burned,
                              burn_time_remaining := burn_time_remaining s1 - time_remaining s1,
                              time_remaining := 0.0\<rparr>))))
         else Inr s1)"

definition burn_clean :: "burn \<Rightarrow> burn" where
  "burn_clean s =
     (let s1 = s\<lparr>burn_time := None\<rparr>
      in if time_remaining s1 > cleaning_time_remaining s1 then
           s1\<lparr>time_remaining := time_remaining s1 - cleaning_time_remaining s1,
              cleaning_time_remaining := 0.0,
              is_cleaning := False,
              is_transiting := True,
              offset_time_remaining := offset_time s1\<rparr>
         else if time_remaining s1 > 0 then
           s1\<lparr>cleaning_time_remaining := cleaning_time_remaining s1 - time_remaining s1,
              time_remaining := 0.0\<rparr>
         else s1)"

text \<open>
  \<open>self._is_transiting and self._is_boom_full\<close>: the second attribute is looked up
  only when the first is true.
\<close>

definition transiting_with :: "bool \<Rightarrow> burn \<Rightarrow> error + bool" where
  "transiting_with full s =
     (if is_transiting s then
        (case is_boom_full s of
           None \<Rightarrow> Inl (AttributeError ''_is_boom_full'')
         | Some b \<Rightarrow> Inr (b = full))
      else Inr False)"

text \<open>One pass through the body of the \<open>while\<close> loop of \<open>prepare_for_model_step\<close>.\<close>

definition burn_iteration :: "burn \<Rightarrow> spill_container \<Rightarrow> error + burn" where
  "burn_iteration s sc =
     and_then (if is_collecting s then burn_collect s sc else Inr s) (\<lambda>s1.
     and_then (transiting_with True s1) (\<lambda>go1.
     and_then (if go1 then burn_transit s1 else Inr s1) (\<lambda>s2.
     and_then (if is_burning s2 then burn_burn s2 else Inr s2) (\<lambda>s3.
       (let s4 = (if is_cleaning s3 then burn_clean s3 else s3)
        in and_then (transiting_with False s4) (\<lambda>go2.
             if go2 then burn_transit s4 else Inr s4))))))"

text \<open>
  The \<open>while self._time_remaining > 0.\<close> loop. \<open>None\<close> is a loop that never ends,
  \<open>Some (Inl e)\<close> an exception that leaves it.
\<close>

partial_function (option) burn_while :: "burn \<Rightarrow> spill_container \<Rightarrow> (error + burn) option" where
  "burn_while s sc =
     (if time_remaining s > 0 then
        (case burn_iteration s sc of
           Inl e \<Rightarrow> Some (Inl e)
         | Inr s' \<Rightarrow> burn_while s' sc)
      else Some (Inr s))"

definition burn_prepare_for_model_step ::
  "burn \<Rightarrow> spill_container \<Rightarrow> real \<Rightarrow> real \<Rightarrow> (error + burn) option" where
  "burn_prepare_for_model_step s sc time_step model_time =
     (let s1 = s\<lparr>ts_collected := 0.0, ts_burned := 0.0\<rparr>;
          s2 = s1\<lparr>active := is_active (timeseries s1) model_time time_step\<rparr>
      in if \<not> active s2 then Some (Inr s2)
         else burn_while (s2\<lparr>time_remaining := time_step\<rparr>) sc)"

text \<open>\<open>sc.mass_balance[k] += x\<close>.\<close>

definition mb_add :: "(string \<rightharpoonup> entry) \<Rightarrow> string \<Rightarrow> real \<Rightarrow> error + (string \<rightharpoonup> entry)" where
  "mb_add mb k x =
     (case mb k of
        None \<Rightarrow> Inl (KeyError k)
      | Some (Scalar v) \<Rightarrow> Inr (mb(k \<mapsto> Scalar (v + x)))
      | Some (Structured _) \<Rightarrow> Inl TypeError)"

text \<open>
  The body of the \<open>for substance, data in les\<close> loop of \<open>Burn.weather_elements\<close>,
  for one substance; a Python number is true when it is not zero.
\<close>

definition burn_weather_data ::
  "burn \<Rightarrow> batch \<Rightarrow> (string \<rightharpoonup> entry) \<Rightarrow> error + batch \<times> (string \<rightharpoonup> entry)" where
  "burn_weather_data s data mb =
     (if length (mass data) = 0 then Inr (data, mb)
      else
        and_then
          (if ts_collected s \<noteq> 0 then
             and_then (mb_add mb ''boomed'' (ts_collected s)) (\<lambda>mb1.
             and_then (mb_add mb1 (ident s) (ts_collected s)) (\<lambda>mb2.
             and_then (remove_mass_simple data (ts_collected s)) (\<lambda>data'.
             Inr (data', mb2))))
           else Inr (data, mb)) (\<lambda>(data', mb').
        if ts_burned s \<noteq> 0 then
          and_then (mb_add mb' ''burned'' (ts_burned s)) (\<lambda>mb1.
          and_then (mb_add mb1 ''boomed'' (- ts_burned s)) (\<lambda>mb2.
          Inr (data', mb2)))
        else Inr (data', mb')))"

fun burn_weather_les ::
  "burn \<Rightarrow> batch list \<Rightarrow> (string \<rightharpoonup> entry) \<Rightarrow> error + batch list \<times> (string \<rightharpoonup> entry)" where
  "burn_weather_les s [] mb = Inr ([], mb)"
| "burn_weather_les s (data # les) mb =
     and_then (burn_weather_data s data mb) (\<lambda>(data', mb').
     and_then (burn_weather_les s les mb') (\<lambda>(les', mb'').
     Inr (data' # les', mb'')))"

definition burn_weather_elements :: "burn \<Rightarrow> spill_container \<Rightarrow> error + spill_container" where
  "burn_weather_elements s sc =
     (if \<not> active s \<or> len_sc sc = 0 then Inr sc
      else and_then (burn_weather_les s (batches sc) (mass_balance sc)) (\<lambda>(les', mb').
             Inr (sc\<lparr>batches := les', mass_balance := mb'\<rparr>)))"

subsection \<open>\<open>Skim\<close>\<close>

text \<open>
  The attributes of a \<open>Skim\<close> object, with the prefix \<open>sk_\<close>. \<open>sk_swath\<close> is what
  the lookup of \<open>self.swath\<close> finds and \<open>sk_ts_oil_collected\<close> the attribute
  \<open>_ts_oil_collected\<close>: \<open>None\<close> while the name does not exist on the object (the
  module assigns the first nowhere, and the second only at the end of \<open>_collect\<close>).
  \<open>sk_barge_arrival\<close> records the type of the configured value.
\<close>

datatype arrival = No_arrival | Date real | Datetime real

record skim =
  sk_ident :: string
  sk_on :: bool
  sk_active :: bool
  sk_timeseries :: "(real \<times> real) list"
  sk_speed :: real
  sk_storage :: real
  sk_swath_width :: real
  sk_throughput :: real
  sk_nameplate_pump :: real
  sk_recovery :: real
  sk_recovery_ef :: real
  sk_decant :: real
  sk_decant_pump :: real
  sk_rig_time :: real
  sk_transit_time :: real
  sk_barge_arrival :: arrival
  sk_is_collecting :: bool
  sk_is_transiting :: bool
  sk_is_offloading :: bool
  sk_is_rig_deriging :: bool
  sk_storage_remaining :: real
  sk_coverage_rate :: real
  sk_time_remaining :: real
  sk_maximum_effective_swath :: real
  sk_swath :: "real option"
  sk_ts_oil_collected :: "real option"
  sk_report :: "string list"

definition skim_prepare_for_model_run :: "skim \<Rightarrow> spill_container \<Rightarrow> skim \<times> spill_container" where
  "skim_prepare_for_model_run s sc =
     (let s1 = s\<lparr>sk_report := []\<rparr>;
          s2 = s1\<lparr>sk_storage_remaining := sk_storage s1\<rparr>;
          s3 = s2\<lparr>sk_coverage_rate := sk_swath_width s2 * sk_speed s2 * 0.00233\<rparr>;
          sc' = (if sk_on s3
                 then sc\<lparr>mass_balance := (mass_balance sc)
                         (''skimmed'' \<mapsto> Scalar 0.0,
                          sk_ident s3 \<mapsto> Structured
                            [(''fluid_collected'', 0.0), (''emulsion_collected'', 0.0),
                             (''oil_collected'', 0.0), (''water_collected'', 0.0),
                             (''water_decanted'', 0.0), (''water_retained'', 0.0),
                             (''area_covered'', 0.0), (''storage_remaining'', 0.0)])\<rparr>
                 else sc)
      in (s3\<lparr>sk_is_collecting := True\<rparr>, sc'))"

text \<open>
  \<open>Skim._collect\<close>. \<open>swath\<close> and \<open>throughput\<close> are local variables of the method,
  each assigned in one branch only and read after it; the logger has no method
  \<open>warni\<close>. Every path that gets past \<open>if recovery > 0\<close> therefore raises before
  \<open>if throughput > 0\<close> is decided, and the statements under that test (the rates,
  \<open>timeToFill\<close>, the update of \<open>_storage_remaining\<close>) are never reached. The first
  division is one of Python numbers when the thickness is \<open>0.0\<close>.
\<close>

definition skim_collect :: "skim \<Rightarrow> spill_container \<Rightarrow> error + skim" where
  "skim_collect s sc =
     and_then (get_thickness sc) (\<lambda>thickness.
     and_then (py_div (sk_nameplate_pump s * sk_recovery s)
                 (63.13 * sk_speed s * thickness * sk_throughput s)) (\<lambda>mes.
       (let s1 = s\<lparr>sk_maximum_effective_swath := mes\<rparr>
        in case sk_swath s1 of
             None \<Rightarrow> Inl (AttributeError ''swath'')
           | Some w \<Rightarrow>
               if w > sk_maximum_effective_swath s1 then
                 (let swath = sk_maximum_effective_swath s1;
                      s2 = (if swath > 1000
                            then s1\<lparr>sk_report := sk_report s1 @
                                   [''Swaths > 1000 feet may not be achievable in the field.'']\<rparr>
                            else s1);
                      encounter_rate = thickness * sk_speed s2 * swath * 63.13;
                      rate_of_coverage = swath * sk_speed s2 * 0.00233
                  in if encounter_rate > 0 then
                       (let recovery = sk_recovery s2
                        in if recovery > 0 then
                             (let totalFluidRecoveryRate =
                                    encounter_rate * (sk_throughput s2 / recovery)
                              in if totalFluidRecoveryRate > sk_nameplate_pump s2
                                 then Inl (AttributeError ''warni'')
                                 else Inl (UnboundLocalError ''throughput''))
                           else Inr s2)
                     else Inr s2)
               else Inl (UnboundLocalError ''swath''))))"

text \<open>The loop taken when the barge arrival is a \<open>datetime.date\<close>.\<close>

partial_function (option) skim_while :: "skim \<Rightarrow> spill_container \<Rightarrow> (error + skim) option" where
  "skim_while s sc =
     (if sk_time_remaining s > 0 then
        (case (if sk_is_collecting s then skim_collect s sc else Inr s) of
           Inl e \<Rightarrow> Some (Inl e)
         | Inr s' \<Rightarrow> skim_while s' sc)
      else Some (Inr s))"

text \<open>
  \<open>type(self.barge_arrival) is datetime.date\<close> holds for a date only. The other
  loop tests \<open>self_time_remaining\<close>, a name that is bound nowhere, so its first
  test raises and \<open>_transit\<close> and \<open>_offload\<close> are never called.
\<close>

definition skim_prepare_for_model_step ::
  "skim \<Rightarrow> spill_container \<Rightarrow> real \<Rightarrow> real \<Rightarrow> (error + skim) option" where
  "skim_prepare_for_model_step s sc time_step model_time =
     (let s1 = s\<lparr>sk_active := is_active (sk_timeseries s) model_time time_step\<rparr>
      in if \<not> sk_active s1 then Some (Inr s1)
         else
           (let s2 = s1\<lparr>sk_time_remaining := time_step\<rparr>
            in case sk_barge_arrival s2 of
                 Date _ \<Rightarrow> skim_while s2 sc
               | _ \<Rightarrow> Some (Inl (NameError ''self_time_remaining''))))"

text \<open>
  \<open>Skim.weather_elements\<close>: the argument \<open>amount\<close> of the call of
  \<open>_remove_mass_simple\<close> is a name bound nowhere.
\<close>

definition skim_weather_data ::
  "skim \<Rightarrow> batch \<Rightarrow> (string \<rightharpoonup> entry) \<Rightarrow> error + batch \<times> (string \<rightharpoonup> entry)" where
  "skim_weather_data s data mb =
     (if length (mass data) = 0 then Inr (data, mb)
      else
        (case sk_ts_oil_collected s of
           None \<Rightarrow> Inl (AttributeError ''_ts_oil_collected'')
         | Some v \<Rightarrow>
             if v \<noteq> 0 then
               and_then (mb_add mb ''skimmed'' v) (\<lambda>mb1. Inl (NameError ''amount''))
             else Inr (data, mb)))"

fun skim_weather_les ::
  "skim \<Rightarrow> batch list \<Rightarrow> (string \<rightharpoonup> entry) \<Rightarrow> error + batch list \<times> (string \<rightharpoonup> entry)" where
  "skim_weather_les s [] mb = Inr ([], mb)"
| "skim_weather_les s (data # les) mb =
     and_then (skim_weather_data s data mb) (\<lambda>(data', mb').
     and_then (skim_weather_les s les mb') (\<lambda>(les', mb'').
     Inr (data' # les', mb'')))"

definition skim_weather_elements :: "skim \<Rightarrow> spill_container \<Rightarrow> error + spill_container" where
  "skim_weather_elements s sc =
     (if \<not> sk_active s \<or> len_sc sc = 0 then Inr sc
      else and_then (skim_weather_les s (batches sc) (mass_balance sc)) (\<lambda>(les', mb').
             Inr (sc\<lparr>batches := les', mass_balance := mb'\<rparr>)))"

section \<open>Concrete inputs\<close>

text \<open>A vessel in its first state, and a dispersant operation that uses it.\<close>

definition vessel0 :: platform where
  "vessel0 =
     \<lparr>ptype = ''vessel'', state = cascade, ttns = 10, has_payload = False,
      disp_remaining = 0, refuel = 30, reload = 20, taxi_time_takeoff = 0,
      taxi_time_landing = 0, taxi_land_depart = 0, fuel_load = 10, transit_speed = 10,
      max_op_time = 8, payload = 1000, max_pump_rate = 100,
      max_range_with_payload = 500, max_range_no_payload = 600,
      cascade_transit_speed_with_payload = 10,
      cascade_transit_speed_without_payload = 12,
      application_speed = 5, swath_width = 100\<rparr>"

definition disperse0 :: disperse where
  "disperse0 = \<lparr>platform = vessel0, transit = 20, dosage = 5\<rparr>"

text \<open>
  Spill containers with one substance and one element: 1 kg of oil spread over
  1000 square metres, and the same element with no area (no oil on the surface).
\<close>

definition batch_oil :: batch where
  "batch_oil = \<lparr>mass = [1], mass_components = [ [1/2, 1/2] ], area = [1000], frac_water = [0]\<rparr>"

definition batch_no_area :: batch where
  "batch_no_area = \<lparr>mass = [1], mass_components = [ [1/2, 1/2] ], area = [0], frac_water = [0]\<rparr>"

definition sc_oil :: spill_container where
  "sc_oil = \<lparr>batches = [batch_oil], density = 1000, mass_balance = Map.empty\<rparr>"

definition sc_no_oil :: spill_container where
  "sc_no_oil = \<lparr>batches = [batch_no_area], density = 1000, mass_balance = Map.empty\<rparr>"



text \<open>
  \<open>burn_new\<close> is \<open>Burn(offset=500, boom_length=100, boom_draft=36, speed=1,
  throughput=0.75, timeseries=[(0, 86400)])\<close> as \<open>__init__\<close> leaves it (an attribute
  that \<open>__init__\<close> does not assign is 0 here and is assigned before it is read),
  \<open>burn_ready\<close> the same object after \<open>prepare_for_model_run\<close>. \<open>burn_partial\<close> is
  a burning operation with a full boom at the start of a one-hour step, and
  \<open>burn_finish\<close> the same operation one hour later.
\<close>

definition burn_new :: burn where
  "burn_new =
     \<lparr>ident = ''burn'', on = True, active = False, timeseries = [(0, 86400)],
      offset = 500, boom_length = 100, boom_draft = 36, speed = 1, throughput = 3/4,
      swath_width_b = 0, area_b = 0, boom_capacity = 0, boom_capacity_remaining = 0,
      offset_time = 0, area_coverage_rate = 0,
      is_collecting = False, is_burning = False, is_boom_filled = False,
      is_boom_full = None, is_transiting = False, is_cleaning = False,
      time_collecting_in_sim = 0, ts_burned = 0, ts_collected = 0, collected = None,
      burn_time = None, burn_rate = 0, burn_time_remaining = 0,
      offset_time_remaining = 0, cleaning_time_remaining = 0, time_remaining = 0,
      report = []\<rparr>"

definition burn_ready :: burn where
  "burn_ready =
     burn_new\<lparr>swath_width_b := 30, area_b := 275, boom_capacity := 275,
              boom_capacity_remaining := 275, offset_time := 2961/10,
              area_coverage_rate := 3/43, is_collecting := True\<rparr>"

definition burn_partial :: burn where
  "burn_partial =
     burn_ready\<lparr>active := True, is_collecting := False, is_burning := True,
                is_boom_full := Some True, boom_capacity_remaining := 0, ts_collected := 0,
                burn_rate := 7/50, burn_time := Some (35640/7),
                burn_time_remaining := 35640/7, time_remaining := 3600\<rparr>"


text \<open>A skimmer as \<open>__init__\<close> leaves it, and after \<open>prepare_for_model_run\<close>.\<close>

definition skim_new :: skim where
  "skim_new =
     \<lparr>sk_ident = ''skim'', sk_on = True, sk_active = False, sk_timeseries = [(0, 86400)],
      sk_speed = 1, sk_storage = 2000, sk_swath_width = 150, sk_throughput = 3/4,
      sk_nameplate_pump = 100, sk_recovery = 3/4, sk_recovery_ef = 3/4, sk_decant = 1/2,
      sk_decant_pump = 150, sk_rig_time = 1800, sk_transit_time = 3600,
      sk_barge_arrival = Datetime 43200,
      sk_is_collecting = False, sk_is_transiting = False, sk_is_offloading = False,
      sk_is_rig_deriging = False, sk_storage_remaining = 0, sk_coverage_rate = 0,
      sk_time_remaining = 0, sk_maximum_effective_swath = 0, sk_swath = None,
      sk_ts_oil_collected = None, sk_report = []\<rparr>"

definition skim_ready :: skim where
  "skim_ready =
     skim_new\<lparr>sk_storage_remaining := 2000, sk_coverage_rate := 699/2000,
              sk_is_collecting := True\<rparr>"

section \<open>Properties\<close>

subsection \<open>The activity window\<close>


lemma round_to_long_int: "round_to_long (of_int k) = k"
  unfolding round_to_long_def by (simp; linarith)


lemma timedelta_whole: "x * 1000000 \<in> \<int> \<Longrightarrow> timedelta x = x"
proof -
  assume "x * 1000000 \<in> \<int>"
  then obtain k :: int where k: "x * 1000000 = of_int k" by (auto elim: Ints_cases)
  then have "round_to_long (x * 1000000) = k" by (simp add: round_to_long_int)
  with k show ?thesis by (simp add: timedelta_def)
qed

lemma timedelta_1800: "timedelta 1800 = 1800"
  by (rule timedelta_whole) simp




subsection \<open>The platform state machine\<close>







text \<open>
  Claim C7 at a concrete step. The platform is in \<open>cascade\<close> with 10 left and the
  step is 25: the state becomes \<open>refuel\<close>, whose duration is 30, and the overshoot
  is 15, so the claim asks for a new \<open>time_to_next_state\<close> of 15. The code stores 5.
\<close>

theorem disperse_step_constant:
  "disperse_prepare_for_model_step disperse0 25 =
     Inr (disperse0\<lparr>platform := vessel0\<lparr>ttns := 5, state := refuel_st\<rparr>\<rparr>)"
  by (simp add: disperse_prepare_for_model_step_def disperse0_def vessel0_def
      goto_next_state_def all_states_def vessel_states_def get_state_time_def
      cascade_time_def transit_time_def max_onsite_time_def py_div_def Let_def)

subsection \<open>Removing mass\<close>




subsection \<open>The concrete operations\<close>

lemma burn_ready_run:
  "burn_prepare_for_model_run burn_new sc_oil =
     Inr (burn_ready,
          sc_oil\<lparr>mass_balance :=
                   [''burned'' \<mapsto> Scalar 0, ''burn'' \<mapsto> Scalar 0, ''boomed'' \<mapsto> Scalar 0]\<rparr>)"
  by (simp add: burn_prepare_for_model_run_def burn_new_def burn_ready_def sc_oil_def
      and_then_def py_div_def Let_def)

lemma skim_ready_run:
  "skim_prepare_for_model_run skim_new sc_oil =
     (skim_ready,
      sc_oil\<lparr>mass_balance :=
        [''skimmed'' \<mapsto> Scalar 0,
         ''skim'' \<mapsto> Structured
            [(''fluid_collected'', 0), (''emulsion_collected'', 0),
             (''oil_collected'', 0), (''water_collected'', 0),
             (''water_decanted'', 0), (''water_retained'', 0),
             (''area_covered'', 0), (''storage_remaining'', 0)] ]\<rparr>)"
  by (simp add: skim_prepare_for_model_run_def skim_new_def skim_ready_def sc_oil_def Let_def)

lemma thickness_oil: "get_thickness sc_oil = Inr (1 / 25400)"
  by (simp add: get_thickness_def sc_oil_def batch_oil_def sc_area_def sc_mass_def
      sc_frac_water_def np_mean_def np_div_def and_then_def meters_to_inches_def)

lemma thickness_no_oil: "get_thickness sc_no_oil = Inr 0"
  by (simp add: get_thickness_def sc_no_oil_def batch_no_area_def sc_area_def
      meters_to_inches_def)

lemma frac_water_oil: "sc_frac_water sc_oil = [0]"
  by (simp add: sc_frac_water_def sc_oil_def batch_oil_def)

lemma frac_water_no_oil: "sc_frac_water sc_no_oil = [0]"
  by (simp add: sc_frac_water_def sc_no_oil_def batch_no_area_def)

subsection \<open>Exceptions in a step\<close>

text \<open>
  Claim C1 at a concrete step. The skimmer \<open>skim_ready\<close> is active at time 0 and
  its barge arrival is a datetime, so \<open>prepare_for_model_step\<close> reaches the second
  loop, whose test reads the unbound name \<open>self_time_remaining\<close>: the call raises.
\<close>

theorem skim_step_raises:
  "skim_prepare_for_model_step skim_ready sc_oil 3600 0
     = Some (Inl (NameError ''self_time_remaining''))"
  by (simp add: skim_prepare_for_model_step_def skim_ready_def skim_new_def Let_def
      timedelta_1800)

text \<open>
  Claim C2 at a concrete step. The boom of \<open>burn_ready\<close> would take longer than
  the step of one hour to fill, so \<open>_collect\<close> takes its first branch, which reads
  \<open>self.collected\<close>: the call raises with the whole hour still in
  \<open>_time_remaining\<close>, and no phase has consumed it.
\<close>

theorem burn_step_raises:
  "burn_prepare_for_model_step burn_ready sc_oil 3600 0
     = Some (Inl (AttributeError ''collected''))"
  apply (simp add: burn_prepare_for_model_step_def Let_def)
  apply (subst burn_while.simps)
  apply (simp add: burn_ready_def burn_new_def burn_iteration_def burn_collect_def and_then_def
      thickness_oil np_mean_def np_div_def frac_water_oil Let_def timedelta_1800)
  done

subsection \<open>The phases of a burn\<close>

text \<open>
  Claim C6 at a concrete call. The container has no oil on the surface, so the
  thickness is 0 and the time to fill is 0 without a division. With time left in
  the step \<open>_collect\<close> then takes its second branch: it records the whole remaining
  capacity of 275 as collected, sets the remaining capacity to 0, marks the boom
  full and goes on to transit.
\<close>

theorem burn_collect_no_oil:
  "burn_collect (burn_ready\<lparr>active := True, time_remaining := 3600\<rparr>) sc_no_oil =
     Inr (burn_ready\<lparr>active := True, burn_rate := 7/50, burn_time := Some (35640/7),
                     burn_time_remaining := 35640/7, ts_collected := 275,
                     boom_capacity_remaining := 0, is_boom_full := Some True,
                     time_remaining := 3600, offset_time_remaining := 2961/10,
                     is_collecting := False, is_transiting := True\<rparr>)"
  by (simp add: burn_collect_def burn_ready_def burn_new_def and_then_def thickness_no_oil
      frac_water_no_oil np_mean_def np_div_def Let_def)




subsection \<open>Weathering when nothing is to be done\<close>

text \<open>
  Claim C10. \<open>weather_elements\<close> of a burn or of a skimmer that is not active, or
  on a container with no elements, returns at once: the container, with its
  substance data and its mass balance, is the one that was passed in.
\<close>

theorem weather_elements_inactive:
  "(\<not> active b \<or> len_sc sc = 0 \<longrightarrow> burn_weather_elements b sc = Inr sc)
   \<and> (\<not> sk_active k \<or> len_sc sc = 0 \<longrightarrow> skim_weather_elements k sc = Inr sc)"
  by (simp add: burn_weather_elements_def skim_weather_elements_def)

theorem weather_elements_inactive_witness:
  "\<not> active burn_ready \<and> burn_weather_elements burn_ready sc_oil = Inr sc_oil
   \<and> \<not> sk_active skim_ready \<and> skim_weather_elements skim_ready sc_oil = Inr sc_oil
   \<and> active burn_partial \<and> len_sc (sc_oil\<lparr>batches := []\<rparr>) = 0
   \<and> burn_weather_elements burn_partial (sc_oil\<lparr>batches := []\<rparr>) = Inr (sc_oil\<lparr>batches := []\<rparr>)"
  using weather_elements_inactive [of burn_ready sc_oil skim_ready]
    weather_elements_inactive [of burn_partial "sc_oil\<lparr>batches := []\<rparr>" skim_ready]
  by (simp add: burn_ready_def burn_new_def skim_ready_def skim_new_def burn_partial_def
      len_sc_def sc_mass_def)

end
